theory Spec2Isabelle
  imports Complex_Main "HOL-Library.Word"
begin

unbundle bit_operations_syntax

section \<open>The energy collector: data\<close>

text \<open>
  A shallow embedding of \<^verbatim>\<open>Collectors/energy/collect_energy.py\<close>.

  Python integers are \<open>int\<close>. The readings of \<^verbatim>\<open>time.time()\<close> are \<open>real\<close>; each reading
  the code takes is a parameter of the function that takes it, so nothing is assumed
  about the clock (not even that it is monotone). The diagnostic \<^verbatim>\<open>print\<close> calls have no
  effect on the state and are left out. The durable store is the list of batches handed
  to \<^verbatim>\<open>executemany\<close> and committed, oldest first; sqlite is taken to accept every batch.
\<close>

type_synonym pulse = "int \<times> int"
  \<comment> \<open>an entry of \<^verbatim>\<open>pulse_list\<close>: \<^verbatim>\<open>(epoch, delta)\<close>\<close>

type_synonym row = "int \<times> int \<times> int"
  \<comment> \<open>an entry of \<^verbatim>\<open>out_buffer\<close>: \<^verbatim>\<open>(epoch_s, dt_ms, count)\<close>\<close>

text \<open>The module's configuration constants (lines 26 to 31), as a parameter.\<close>

record config =
  DbaseBlkTime :: int
  MAX_RECORDS :: int
  MIN_TIME :: int
  GLITCH_THRESHOLD_US :: int

definition default_config :: config where
  "default_config =
     \<lparr>DbaseBlkTime = 60, MAX_RECORDS = 5000, MIN_TIME = 5, GLITCH_THRESHOLD_US = 50000\<rparr>"

text \<open>
  The module globals (\<^verbatim>\<open>previous_tick\<close>, \<^verbatim>\<open>pulse_list\<close>, \<^verbatim>\<open>running\<close>), the locals of
  \<^verbatim>\<open>aggregator_loop\<close> that its closures share, and the store.
\<close>

record state =
  previous_tick :: "int option"
  pulse_list :: "pulse list"
  running :: bool
  out_buffer :: "row list"
  last_flush_time :: real
  old_epoch :: "int option"
  AggStart :: int
  dt_agg :: int
  pulse_count :: int
  block_input_pulses :: int
  block_output_records :: int
  db :: "row list list"

text \<open>The state when \<^verbatim>\<open>aggregator_loop\<close> reaches its loop; \<open>t0\<close> is the reading of line 102.\<close>

definition init_state :: "real \<Rightarrow> state" where
  "init_state t0 =
     \<lparr>previous_tick = None, pulse_list = [], running = True, out_buffer = [],
      last_flush_time = t0, old_epoch = None, AggStart = 0, dt_agg = 0, pulse_count = 0,
      block_input_pulses = 0, block_output_records = 0, db = []\<rparr>"

section \<open>The GPIO callback\<close>

text \<open>\<^verbatim>\<open>int(x)\<close> on a float truncates towards zero.\<close>

definition py_int :: "real \<Rightarrow> int" where
  "py_int x = (if 0 \<le> x then \<lfloor>x\<rfloor> else \<lceil>x\<rceil>)"

text \<open>
  \<^verbatim>\<open>edge_callback(gpio, level, tick)\<close>; \<open>now\<close> is the reading of \<^verbatim>\<open>time.time()\<close> at line 78.
  Python's \<^verbatim>\<open>&\<close> on integers is the two's-complement \<open>AND\<close> of \<open>int\<close>.
\<close>

definition edge_callback :: "int \<Rightarrow> int \<Rightarrow> real \<Rightarrow> state \<Rightarrow> state" where
  "edge_callback level tick now s =
     (if level \<noteq> 0 then s
      else case previous_tick s of
        None \<Rightarrow> s\<lparr>previous_tick := Some tick\<rparr>
      | Some prev \<Rightarrow>
          (let delta = (tick - prev) AND 0xFFFFFFFF;
               epoch = py_int now
           in s\<lparr>previous_tick := Some tick, pulse_list := pulse_list s @ [(epoch, delta)]\<rparr>))"

definition shutdown_handler :: "state \<Rightarrow> state" where
  "shutdown_handler s = s\<lparr>running := False\<rparr>"

section \<open>Aggregation and the writer\<close>

text \<open>
  \<^verbatim>\<open>round(dt_agg / 1000)\<close>: the quotient rounded to the nearest integer, a tie to the even
  one. The float quotient and the exact one round to the same integer as long as the
  accumulated interval stays below \<open>8 * 10 ^ 15\<close> microseconds (more than two centuries).
\<close>

definition round_ms :: "int \<Rightarrow> int" where
  "round_ms n =
     (let q = n div 1000; r = n mod 1000
      in if r < 500 then q else if 500 < r then q + 1 else if even q then q else q + 1)"

text \<open>\<^verbatim>\<open>flush_buffer()\<close>; \<open>now\<close> is the reading of line 136.\<close>

definition flush_buffer :: "real \<Rightarrow> state \<Rightarrow> state" where
  "flush_buffer now s =
     (if out_buffer s = [] then s
      else s\<lparr>db := db s @ [out_buffer s], out_buffer := [], last_flush_time := now,
             block_input_pulses := 0, block_output_records := 0\<rparr>)"

definition emit_output :: "int \<Rightarrow> int \<Rightarrow> int \<Rightarrow> state \<Rightarrow> state" where
  "emit_output epoch_s dt_ms count s =
     s\<lparr>out_buffer := out_buffer s @ [(epoch_s, dt_ms, count)],
       block_output_records := block_output_records s + 1\<rparr>"

text \<open>
  One pass through the body of \<^verbatim>\<open>while running\<close> (lines 155 to 192). \<open>t_check\<close> is the
  reading the pass compares with \<^verbatim>\<open>last_flush_time\<close> (line 157 or line 191), \<open>t_flush\<close> the
  one \<^verbatim>\<open>flush_buffer\<close> stores. The three \<^verbatim>\<open>continue\<close> statements are the three branches that
  return before the flush check.
\<close>

definition loop_body :: "config \<Rightarrow> real \<Rightarrow> real \<Rightarrow> state \<Rightarrow> state" where
  "loop_body cfg t_check t_flush s =
     (case pulse_list s of
        [] \<Rightarrow>
          if of_int (DbaseBlkTime cfg) \<le> t_check - last_flush_time s
          then flush_buffer t_flush s else s
      | (epoch, delta_us) # rest \<Rightarrow>
          (let s1 = s\<lparr>pulse_list := rest, block_input_pulses := block_input_pulses s + 1\<rparr>
           in if delta_us < GLITCH_THRESHOLD_US cfg then s1
              else if old_epoch s1 = None
              then s1\<lparr>old_epoch := Some epoch, AggStart := epoch, dt_agg := delta_us,
                      pulse_count := 1\<rparr>
              else
                (let s2 =
                       (if epoch \<le> AggStart s1 + MIN_TIME cfg
                        then s1\<lparr>dt_agg := dt_agg s1 + delta_us,
                                pulse_count := pulse_count s1 + 1\<rparr>
                        else (emit_output (AggStart s1) (round_ms (dt_agg s1)) (pulse_count s1) s1)
                               \<lparr>AggStart := epoch, dt_agg := delta_us, pulse_count := 1\<rparr>);
                     s3 = s2\<lparr>old_epoch := Some epoch\<rparr>
                 in if of_int (DbaseBlkTime cfg) \<le> t_check - last_flush_time s3
                       \<or> MAX_RECORDS cfg \<le> int (length (out_buffer s3))
                    then flush_buffer t_flush s3 else s3)))"

text \<open>Lines 194 to 198, after the loop: the last window, then the unconditional flush.\<close>

definition loop_exit :: "real \<Rightarrow> state \<Rightarrow> state" where
  "loop_exit t_flush s =
     flush_buffer t_flush
       (if 0 < pulse_count s
        then emit_output (AggStart s) (round_ms (dt_agg s)) (pulse_count s) s else s)"

text \<open>
  The loop runs beside two things it does not control: the pigpio thread calling
  \<^verbatim>\<open>edge_callback\<close>, and the signal handler. The callback only appends to \<^verbatim>\<open>pulse_list\<close>
  and the body only tests it for emptiness and pops its head, and \<^verbatim>\<open>running\<close> is read
  only at the head of the loop; so a run is a sequence of events, each of them an edge,
  a signal, or a turn of the loop: the test of \<^verbatim>\<open>running\<close> followed by one pass through
  the body or, when \<^verbatim>\<open>running\<close> is false, by the code after the loop.

  \<open>aggregator_loop\<close> is \<open>None\<close> when the events end with the loop still running.
\<close>

datatype event =
    Edge int int real
  | Signal
  | Turn real real

fun aggregator_loop :: "config \<Rightarrow> event list \<Rightarrow> state \<Rightarrow> state option" where
  "aggregator_loop cfg [] s = None"
| "aggregator_loop cfg (Edge level tick now # evs) s =
     aggregator_loop cfg evs (edge_callback level tick now s)"
| "aggregator_loop cfg (Signal # evs) s = aggregator_loop cfg evs (shutdown_handler s)"
| "aggregator_loop cfg (Turn t_check t_flush # evs) s =
     (if running s then aggregator_loop cfg evs (loop_body cfg t_check t_flush s)
      else Some (loop_exit t_flush s))"

text \<open>Every record emitted so far: those written to the store, then those still buffered.\<close>

definition emitted :: "state \<Rightarrow> row list" where
  "emitted s = concat (db s) @ out_buffer s"

section \<open>Invariants of the loop\<close>

text \<open>
  The window is either closed, with nothing counted, or open, and then it holds at least
  one interval that passed the glitch filter.
\<close>

definition window_ok :: "config \<Rightarrow> state \<Rightarrow> bool" where
  "window_ok cfg s \<longleftrightarrow>
     (old_epoch s = None \<longrightarrow> pulse_count s = 0)
     \<and> (old_epoch s \<noteq> None \<longrightarrow> GLITCH_THRESHOLD_US cfg \<le> dt_agg s \<and> 0 < pulse_count s)"

definition rows_positive :: "row list \<Rightarrow> bool" where
  "rows_positive rs = list_all (\<lambda>(epoch_s, dt_ms, count). 0 < count \<and> 0 < dt_ms) rs"

definition engine_ok :: "config \<Rightarrow> state \<Rightarrow> bool" where
  "engine_ok cfg s \<longleftrightarrow> window_ok cfg s \<and> rows_positive (emitted s)"

text \<open>
  At the head of the loop the buffer is shorter than the cap, and no batch in the store
  is longer than the cap.
\<close>

definition buffer_ok :: "config \<Rightarrow> state \<Rightarrow> bool" where
  "buffer_ok cfg s \<longleftrightarrow>
     int (length (out_buffer s)) < MAX_RECORDS cfg
     \<and> list_all (\<lambda>batch. int (length batch) \<le> MAX_RECORDS cfg) (db s)"

section \<open>Auxiliary facts\<close>

lemma and_ffffffff: "(k::int) AND 0xFFFFFFFF = k mod 2 ^ 32"
proof -
  have "(0xFFFFFFFF::int) = mask 32" by (simp add: mask_eq_exp_minus_1)
  then show ?thesis by (simp only: flip: take_bit_eq_mask take_bit_eq_mod)
qed

lemma round_ms_pos:
  assumes n: "500 < n"
  shows "0 < round_ms n"
proof -
  define q where "q = n div 1000"
  define r where "r = n mod 1000"
  have eq: "n = 1000 * q + r" by (simp add: q_def r_def)
  have r: "0 \<le> r" "r < 1000" by (simp_all add: r_def)
  have q: "0 \<le> q" using n by (simp add: q_def)
  have res: "round_ms n = (if r < 500 then q else if 500 < r then q + 1
                           else if even q then q else q + 1)"
    by (simp add: round_ms_def Let_def q_def r_def)
  consider "r < 500" | "500 < r" | "r = 500" by linarith
  then show ?thesis
  proof cases
    case 1
    then have "0 < q" using n eq by linarith
    then show ?thesis using 1 res by simp
  next
    case 2
    then show ?thesis using q res by simp
  next
    case 3
    then have "0 < q" using n eq by linarith
    then show ?thesis using 3 res by simp
  qed
qed

lemma rows_positive_append [simp]:
  "rows_positive (xs @ ys) \<longleftrightarrow> rows_positive xs \<and> rows_positive ys"
  by (simp add: rows_positive_def)

lemma rows_positive_single [simp]:
  "rows_positive [(e, ms, c)] \<longleftrightarrow> 0 < c \<and> 0 < ms"
  by (simp add: rows_positive_def)

lemma rows_positive_Nil [simp]: "rows_positive []"
  by (simp add: rows_positive_def)

lemma engine_ok_init: "engine_ok cfg (init_state t0)"
  by (simp add: engine_ok_def window_ok_def init_state_def emitted_def)

lemma engine_ok_edge: "engine_ok cfg s \<Longrightarrow> engine_ok cfg (edge_callback level tick now s)"
  by (simp add: engine_ok_def window_ok_def edge_callback_def emitted_def Let_def
      split: option.splits)

lemma engine_ok_signal: "engine_ok cfg s \<Longrightarrow> engine_ok cfg (shutdown_handler s)"
  by (simp add: engine_ok_def window_ok_def shutdown_handler_def emitted_def)

lemma emitted_flush [simp]: "emitted (flush_buffer now s) = emitted s"
  by (simp add: flush_buffer_def emitted_def)

lemma emitted_emit: "emitted (emit_output e ms c s) = emitted s @ [(e, ms, c)]"
  by (simp add: emit_output_def emitted_def)

lemma window_flush [simp]: "window_ok cfg (flush_buffer now s) = window_ok cfg s"
  by (simp add: flush_buffer_def window_ok_def)

lemma engine_ok_flush [simp]: "engine_ok cfg (flush_buffer now s) = engine_ok cfg s"
  by (simp add: engine_ok_def)

lemma engine_ok_body:
  assumes thr: "500 < GLITCH_THRESHOLD_US cfg" and ok: "engine_ok cfg s"
  shows "engine_ok cfg (loop_body cfg t_check t_flush s)"
proof (cases "pulse_list s")
  case Nil
  then show ?thesis using ok by (simp add: loop_body_def)
next
  case (Cons p rest)
  obtain epoch delta_us where p: "p = (epoch, delta_us)" by (cases p)
  show ?thesis
  proof (cases "delta_us < GLITCH_THRESHOLD_US cfg")
    case True
    then show ?thesis using ok Cons p
      by (simp add: loop_body_def engine_ok_def window_ok_def emitted_def)
  next
    case False
    then have d: "500 < delta_us" using thr by simp
    show ?thesis
    proof (cases "old_epoch s")
      case None
      then show ?thesis using ok Cons p False
        by (simp add: loop_body_def engine_ok_def window_ok_def emitted_def)
    next
      case (Some e0)
      then have w: "GLITCH_THRESHOLD_US cfg \<le> dt_agg s" "0 < pulse_count s"
        using ok by (simp_all add: engine_ok_def window_ok_def)
      then have r: "0 < round_ms (dt_agg s)" using thr by (intro round_ms_pos) simp
      define s1 where "s1 = s\<lparr>pulse_list := rest, block_input_pulses := block_input_pulses s + 1\<rparr>"
      define s3 where "s3 =
        (if epoch \<le> AggStart s1 + MIN_TIME cfg
         then s1\<lparr>dt_agg := dt_agg s1 + delta_us, pulse_count := pulse_count s1 + 1\<rparr>
         else (emit_output (AggStart s1) (round_ms (dt_agg s1)) (pulse_count s1) s1)
                \<lparr>AggStart := epoch, dt_agg := delta_us, pulse_count := 1\<rparr>)\<lparr>old_epoch := Some epoch\<rparr>"
      have body: "loop_body cfg t_check t_flush s =
        (if of_int (DbaseBlkTime cfg) \<le> t_check - last_flush_time s3
            \<or> MAX_RECORDS cfg \<le> int (length (out_buffer s3))
         then flush_buffer t_flush s3 else s3)"
        using Cons p False Some by (simp add: loop_body_def Let_def s1_def s3_def)
      have "engine_ok cfg s3"
        using ok w d r thr False
        by (simp add: s3_def s1_def engine_ok_def window_ok_def emitted_def emit_output_def)
      then show ?thesis by (simp add: body)
    qed
  qed
qed

lemma engine_ok_exit:
  assumes thr: "500 < GLITCH_THRESHOLD_US cfg" and ok: "engine_ok cfg s"
  shows "rows_positive (emitted (loop_exit t_flush s))"
proof (cases "0 < pulse_count s")
  case True
  then have "GLITCH_THRESHOLD_US cfg \<le> dt_agg s"
    using ok by (auto simp: engine_ok_def window_ok_def)
  then have "0 < round_ms (dt_agg s)" using thr by (intro round_ms_pos) simp
  then show ?thesis using ok True
    by (simp add: loop_exit_def engine_ok_def emitted_emit)
next
  case False
  then show ?thesis using ok by (simp add: loop_exit_def engine_ok_def)
qed

lemma engine_ok_run:
  assumes thr: "500 < GLITCH_THRESHOLD_US cfg"
  shows "engine_ok cfg s \<Longrightarrow> aggregator_loop cfg evs s = Some s' \<Longrightarrow> rows_positive (emitted s')"
proof (induction evs arbitrary: s)
  case Nil
  then show ?case by simp
next
  case (Cons ev evs)
  show ?case
  proof (cases ev)
    case (Edge level tick now)
    with Cons.prems have "aggregator_loop cfg evs (edge_callback level tick now s) = Some s'"
      by simp
    then show ?thesis by (rule Cons.IH [OF engine_ok_edge [OF Cons.prems(1)]])
  next
    case Signal
    with Cons.prems have "aggregator_loop cfg evs (shutdown_handler s) = Some s'"
      by simp
    then show ?thesis by (rule Cons.IH [OF engine_ok_signal [OF Cons.prems(1)]])
  next
    case (Turn t_check t_flush)
    show ?thesis
    proof (cases "running s")
      case True
      with Cons.prems Turn
      have "aggregator_loop cfg evs (loop_body cfg t_check t_flush s) = Some s'"
        by simp
      then show ?thesis by (rule Cons.IH [OF engine_ok_body [OF thr Cons.prems(1)]])
    next
      case False
      with Cons.prems Turn have "s' = loop_exit t_flush s" by simp
      then show ?thesis using engine_ok_exit [OF thr Cons.prems(1)] by simp
    qed
  qed
qed

lemma buffer_ok_init: "1 \<le> MAX_RECORDS cfg \<Longrightarrow> buffer_ok cfg (init_state t0)"
  by (simp add: buffer_ok_def init_state_def)

lemma buffer_ok_edge: "buffer_ok cfg s \<Longrightarrow> buffer_ok cfg (edge_callback level tick now s)"
  by (simp add: buffer_ok_def edge_callback_def Let_def split: option.splits)

lemma buffer_ok_signal: "buffer_ok cfg s \<Longrightarrow> buffer_ok cfg (shutdown_handler s)"
  by (simp add: buffer_ok_def shutdown_handler_def)

lemma buffer_ok_flush:
  assumes "1 \<le> MAX_RECORDS cfg"
    and "int (length (out_buffer s)) \<le> MAX_RECORDS cfg"
    and "list_all (\<lambda>batch. int (length batch) \<le> MAX_RECORDS cfg) (db s)"
  shows "buffer_ok cfg (flush_buffer now s)"
  using assms by (simp add: buffer_ok_def flush_buffer_def)

lemma buffer_ok_body:
  assumes cap: "1 \<le> MAX_RECORDS cfg" and ok: "buffer_ok cfg s"
  shows "buffer_ok cfg (loop_body cfg t_check t_flush s)"
proof (cases "pulse_list s")
  case Nil
  have "buffer_ok cfg (flush_buffer t_flush s)"
    using cap ok by (intro buffer_ok_flush) (simp_all add: buffer_ok_def)
  then show ?thesis using ok Nil by (simp add: loop_body_def)
next
  case (Cons p rest)
  obtain epoch delta_us where p: "p = (epoch, delta_us)" by (cases p)
  define s1 where "s1 = s\<lparr>pulse_list := rest, block_input_pulses := block_input_pulses s + 1\<rparr>"
  define s3 where "s3 =
    (if epoch \<le> AggStart s1 + MIN_TIME cfg
     then s1\<lparr>dt_agg := dt_agg s1 + delta_us, pulse_count := pulse_count s1 + 1\<rparr>
     else (emit_output (AggStart s1) (round_ms (dt_agg s1)) (pulse_count s1) s1)
            \<lparr>AggStart := epoch, dt_agg := delta_us, pulse_count := 1\<rparr>)\<lparr>old_epoch := Some epoch\<rparr>"
  have s1: "buffer_ok cfg s1" using ok by (simp add: s1_def buffer_ok_def)
  have len3: "int (length (out_buffer s3)) \<le> MAX_RECORDS cfg"
    and db3: "list_all (\<lambda>batch. int (length batch) \<le> MAX_RECORDS cfg) (db s3)"
    using ok by (simp_all add: s3_def s1_def buffer_ok_def emit_output_def)
  have f3: "buffer_ok cfg (flush_buffer t_flush s3)"
    using cap len3 db3 by (rule buffer_ok_flush)
  have n3: "\<not> MAX_RECORDS cfg \<le> int (length (out_buffer s3)) \<Longrightarrow> buffer_ok cfg s3"
    using db3 by (simp add: buffer_ok_def)
  have seed: "buffer_ok cfg (s1\<lparr>old_epoch := Some epoch, AggStart := epoch,
      dt_agg := delta_us, pulse_count := 1\<rparr>)"
    using s1 by (simp add: buffer_ok_def)
  have body: "loop_body cfg t_check t_flush s =
    (if delta_us < GLITCH_THRESHOLD_US cfg then s1
     else if old_epoch s1 = None
     then s1\<lparr>old_epoch := Some epoch, AggStart := epoch, dt_agg := delta_us, pulse_count := 1\<rparr>
     else if of_int (DbaseBlkTime cfg) \<le> t_check - last_flush_time s3
            \<or> MAX_RECORDS cfg \<le> int (length (out_buffer s3))
     then flush_buffer t_flush s3 else s3)"
    using Cons p by (simp add: loop_body_def Let_def s1_def s3_def)
  show ?thesis
  proof (cases "MAX_RECORDS cfg \<le> int (length (out_buffer s3))")
    case True
    then show ?thesis using s1 seed f3 by (simp add: body)
  next
    case False
    then show ?thesis using s1 seed f3 n3 by (simp add: body)
  qed
qed

lemma batches_exit:
  assumes cap: "1 \<le> MAX_RECORDS cfg" and ok: "buffer_ok cfg s"
  shows "buffer_ok cfg (loop_exit t_flush s)"
  unfolding loop_exit_def
  using cap ok by (intro buffer_ok_flush) (simp_all add: buffer_ok_def emit_output_def)

lemma buffer_ok_run:
  assumes cap: "1 \<le> MAX_RECORDS cfg"
  shows "buffer_ok cfg s \<Longrightarrow> aggregator_loop cfg evs s = Some s' \<Longrightarrow> buffer_ok cfg s'"
proof (induction evs arbitrary: s)
  case Nil
  then show ?case by simp
next
  case (Cons ev evs)
  show ?case
  proof (cases ev)
    case (Edge level tick now)
    with Cons.prems have "aggregator_loop cfg evs (edge_callback level tick now s) = Some s'"
      by simp
    then show ?thesis by (rule Cons.IH [OF buffer_ok_edge [OF Cons.prems(1)]])
  next
    case Signal
    with Cons.prems have "aggregator_loop cfg evs (shutdown_handler s) = Some s'"
      by simp
    then show ?thesis by (rule Cons.IH [OF buffer_ok_signal [OF Cons.prems(1)]])
  next
    case (Turn t_check t_flush)
    show ?thesis
    proof (cases "running s")
      case True
      with Cons.prems Turn
      have "aggregator_loop cfg evs (loop_body cfg t_check t_flush s) = Some s'"
        by simp
      then show ?thesis by (rule Cons.IH [OF buffer_ok_body [OF cap Cons.prems(1)]])
    next
      case False
      with Cons.prems Turn have "s' = loop_exit t_flush s" by simp
      then show ?thesis using batches_exit [OF cap Cons.prems(1)] by simp
    qed
  qed
qed

lemma flush_check_idle:
  assumes "buffer_ok cfg s" and "pulse_list s = []"
  shows "(of_int (DbaseBlkTime cfg) \<le> t_check - last_flush_time s
            \<or> MAX_RECORDS cfg \<le> int (length (out_buffer s))
          \<longrightarrow> loop_body cfg t_check t_flush s = flush_buffer t_flush s)
       \<and> (\<not> (of_int (DbaseBlkTime cfg) \<le> t_check - last_flush_time s
              \<or> MAX_RECORDS cfg \<le> int (length (out_buffer s)))
          \<longrightarrow> loop_body cfg t_check t_flush s = s)"
  using assms by (simp add: loop_body_def buffer_ok_def)

lemma flush_check_pulse:
  assumes "pulse_list s = (epoch, delta_us) # rest"
    and "\<not> delta_us < GLITCH_THRESHOLD_US cfg"
    and "old_epoch s = Some e0"
    and "b = (if epoch \<le> AggStart s + MIN_TIME cfg then out_buffer s
              else out_buffer s @ [(AggStart s, round_ms (dt_agg s), pulse_count s)])"
  shows "(of_int (DbaseBlkTime cfg) \<le> t_check - last_flush_time s
            \<or> MAX_RECORDS cfg \<le> int (length b)
          \<longrightarrow> out_buffer (loop_body cfg t_check t_flush s) = []
              \<and> (b \<noteq> [] \<longrightarrow> db (loop_body cfg t_check t_flush s) = db s @ [b]
                    \<and> last_flush_time (loop_body cfg t_check t_flush s) = t_flush))
       \<and> (\<not> (of_int (DbaseBlkTime cfg) \<le> t_check - last_flush_time s
              \<or> MAX_RECORDS cfg \<le> int (length b))
          \<longrightarrow> out_buffer (loop_body cfg t_check t_flush s) = b
              \<and> db (loop_body cfg t_check t_flush s) = db s
              \<and> last_flush_time (loop_body cfg t_check t_flush s) = last_flush_time s)"
  using assms by (simp add: loop_body_def Let_def flush_buffer_def emit_output_def)

section \<open>The tick difference\<close>

text \<open>
  Claim C6. The interval that \<^verbatim>\<open>edge_callback\<close> appends is the difference of the tick and
  the previous tick modulo \<open>2 ^ 32\<close>, for every pair of ticks: it lies in
  \<open>{0 ..< 2 ^ 32}\<close> also where the plain difference is negative. For the previous tick
  \<open>0xFFFFFFF0\<close> and the tick \<open>0x00000010\<close> the interval is \<open>0x20\<close>.
\<close>

theorem edge_callback_interval_modular:
  "pulse_list (edge_callback 0 tick now (s\<lparr>previous_tick := Some prev\<rparr>))
     = pulse_list s @ [(py_int now, (tick - prev) mod 2 ^ 32)]
   \<and> 0 \<le> (tick - prev) mod (2 ^ 32 :: int)
   \<and> (tick - prev) mod (2 ^ 32 :: int) < 2 ^ 32
   \<and> pulse_list (edge_callback 0 0x00000010 now (s\<lparr>previous_tick := Some 0xFFFFFFF0\<rparr>))
     = pulse_list s @ [(py_int now, 0x20)]"
  by (simp add: edge_callback_def and_ffffffff)

section \<open>A glitch edge and the next interval\<close>

text \<open>
  Claim C9. \<^verbatim>\<open>edge_callback\<close> moves \<^verbatim>\<open>previous_tick\<close> to every falling edge, also to one
  whose interval the loop will discard as a glitch. After a glitch edge at \<open>tick1\<close> and
  a further edge at \<open>tick2\<close>, the second observation has the interval
  \<open>(tick2 - tick1) mod 2 ^ 32\<close>, measured from the glitch edge. The loop, having handled
  both, is in the state it would be in after that second observation alone, but for
  the glitch counted as an input: the time from \<open>tick0\<close> to \<open>tick1\<close> is in no window.
  When the second observation is folded into an open window, \<^verbatim>\<open>dt_agg\<close> grows by
  \<open>(tick2 - tick1) mod 2 ^ 32\<close>.
\<close>

theorem glitch_edge_moves_previous_tick:
  assumes "previous_tick s = Some tick0"
    and "pulse_list s = []"
    and "(tick1 - tick0) mod 2 ^ 32 < GLITCH_THRESHOLD_US cfg"
  shows "previous_tick (edge_callback 0 tick1 now1 s) = Some tick1
       \<and> pulse_list (edge_callback 0 tick2 now2 (edge_callback 0 tick1 now1 s))
           = [(py_int now1, (tick1 - tick0) mod 2 ^ 32), (py_int now2, (tick2 - tick1) mod 2 ^ 32)]
       \<and> loop_body cfg t_check' t_flush' (loop_body cfg t_check t_flush
             (edge_callback 0 tick2 now2 (edge_callback 0 tick1 now1 s)))
           = loop_body cfg t_check' t_flush'
               (s\<lparr>previous_tick := Some tick2,
                   pulse_list := [(py_int now2, (tick2 - tick1) mod 2 ^ 32)],
                   block_input_pulses := block_input_pulses s + 1\<rparr>)
       \<and> (old_epoch s \<noteq> None \<and> \<not> (tick2 - tick1) mod 2 ^ 32 < GLITCH_THRESHOLD_US cfg
            \<and> py_int now2 \<le> AggStart s + MIN_TIME cfg
          \<longrightarrow> dt_agg (loop_body cfg t_check' t_flush' (loop_body cfg t_check t_flush
                 (edge_callback 0 tick2 now2 (edge_callback 0 tick1 now1 s))))
               = dt_agg s + (tick2 - tick1) mod 2 ^ 32)"
  using assms
  by (auto simp add: edge_callback_def and_ffffffff loop_body_def Let_def flush_buffer_def)

theorem glitch_edge_moves_previous_tick_witness:
  "previous_tick (edge_callback 0 1000 101
      ((init_state 0)\<lparr>previous_tick := Some 0, old_epoch := Some 100, AggStart := 100,
         dt_agg := 60000, pulse_count := 1\<rparr>)) = Some 1000
   \<and> pulse_list (edge_callback 0 61000 102 (edge_callback 0 1000 101
      ((init_state 0)\<lparr>previous_tick := Some 0, old_epoch := Some 100, AggStart := 100,
         dt_agg := 60000, pulse_count := 1\<rparr>))) = [(101, 1000), (102, 60000)]
   \<and> dt_agg (loop_body default_config 3 4 (loop_body default_config 1 2
      (edge_callback 0 61000 102 (edge_callback 0 1000 101
        ((init_state 0)\<lparr>previous_tick := Some 0, old_epoch := Some 100, AggStart := 100,
           dt_agg := 60000, pulse_count := 1\<rparr>))))) = 120000"
proof -
  let ?s = "(init_state 0)\<lparr>previous_tick := Some 0, old_epoch := Some 100, AggStart := 100,
    dt_agg := 60000, pulse_count := 1\<rparr>"
  have prev: "previous_tick ?s = Some 0" and empty: "pulse_list ?s = []"
    by (simp_all add: init_state_def)
  have glitch: "((1000::int) - 0) mod 2 ^ 32 < GLITCH_THRESHOLD_US default_config"
    by (simp add: default_config_def)
  note h = glitch_edge_moves_previous_tick [OF prev empty glitch, where ?tick2.0 = 61000
      and ?now1.0 = 101 and ?now2.0 = 102 and t_check = 1 and t_flush = 2
      and t_check' = 3 and t_flush' = 4]
  from h have a: "previous_tick (edge_callback 0 1000 101 ?s) = Some 1000"
    by blast
  from h have "pulse_list (edge_callback 0 61000 102 (edge_callback 0 1000 101 ?s))
      = [(py_int 101, (1000 - 0) mod 2 ^ 32), (py_int 102, (61000 - 1000) mod 2 ^ 32)]"
    by blast
  then have b: "pulse_list (edge_callback 0 61000 102 (edge_callback 0 1000 101 ?s))
      = [(101, 1000), (102, 60000)]"
    by (simp add: py_int_def)
  from h have "old_epoch ?s \<noteq> None
      \<and> \<not> ((61000::int) - 1000) mod 2 ^ 32 < GLITCH_THRESHOLD_US default_config
      \<and> py_int 102 \<le> AggStart ?s + MIN_TIME default_config
    \<longrightarrow> dt_agg (loop_body default_config 3 4 (loop_body default_config 1 2
          (edge_callback 0 61000 102 (edge_callback 0 1000 101 ?s))))
        = dt_agg ?s + (61000 - 1000) mod 2 ^ 32"
    by blast
  then have c: "dt_agg (loop_body default_config 3 4 (loop_body default_config 1 2
      (edge_callback 0 61000 102 (edge_callback 0 1000 101 ?s)))) = 120000"
    by (simp add: init_state_def default_config_def py_int_def)
  from a b c show ?thesis by blast
qed

section \<open>The glitch filter\<close>

text \<open>
  Claim C4. A pass of the loop that pops an observation whose interval is below the
  glitch threshold counts it in \<^verbatim>\<open>block_input_pulses\<close> and changes nothing else: the
  window (\<^verbatim>\<open>AggStart\<close>, \<^verbatim>\<open>dt_agg\<close>, \<^verbatim>\<open>pulse_count\<close>, \<^verbatim>\<open>old_epoch\<close>), the buffer and the store
  are as before, so the observation is in no record. The state is arbitrary: this holds
  at any position of the stream, and with \<^verbatim>\<open>old_epoch\<close> still \<^verbatim>\<open>None\<close> for the first
  observation ever.
\<close>

theorem glitch_discarded:
  "pulse_list s = (epoch, delta_us) # rest \<Longrightarrow> delta_us < GLITCH_THRESHOLD_US cfg \<Longrightarrow>
     loop_body cfg t_check t_flush s
       = s\<lparr>pulse_list := rest, block_input_pulses := block_input_pulses s + 1\<rparr>
     \<and> emitted (loop_body cfg t_check t_flush s) = emitted s"
  by (simp add: loop_body_def emitted_def)

theorem glitch_discarded_witness:
  "loop_body default_config 200 200 ((init_state 0)\<lparr>pulse_list := [(100, 49999)]\<rparr>)
     = (init_state 0)\<lparr>block_input_pulses := 1\<rparr>
   \<and> emitted (loop_body default_config 200 200 ((init_state 0)\<lparr>pulse_list := [(100, 49999)]\<rparr>))
     = []"
  using glitch_discarded [of "(init_state 0)\<lparr>pulse_list := [(100, 49999)]\<rparr>" 100 49999 "[]"
      default_config 200 200]
  by (simp add: init_state_def default_config_def emitted_def)

section \<open>Window continuation and window close\<close>



text \<open>
  Claim C7. With \<open>MIN_TIME = 5\<close> and the glitch threshold \<open>50000\<close>, three passes of the
  loop over the queue \<open>(100, 60000), (101, 80000), (107, 90000)\<close>, started in the initial
  state: after the second pass the window holds \<open>140000\<close> microseconds in two pulses and
  nothing is emitted; after the third, exactly the record \<open>(100, 140, 2)\<close> is emitted,
  and the open window is \<open>AggStart = 107\<close>, \<open>dt_agg = 90000\<close>, \<open>pulse_count = 1\<close>. This
  holds for all clock readings.
\<close>

theorem end_to_end_scenario:
  "emitted (loop_body default_config t5 t6 (loop_body default_config t3 t4
      (loop_body default_config t1 t2
        ((init_state t0)\<lparr>pulse_list := [(100, 60000), (101, 80000), (107, 90000)]\<rparr>))))
     = [(100, 140, 2)]
   \<and> AggStart (loop_body default_config t5 t6 (loop_body default_config t3 t4
      (loop_body default_config t1 t2
        ((init_state t0)\<lparr>pulse_list := [(100, 60000), (101, 80000), (107, 90000)]\<rparr>))))
     = 107
   \<and> dt_agg (loop_body default_config t5 t6 (loop_body default_config t3 t4
      (loop_body default_config t1 t2
        ((init_state t0)\<lparr>pulse_list := [(100, 60000), (101, 80000), (107, 90000)]\<rparr>))))
     = 90000
   \<and> pulse_count (loop_body default_config t5 t6 (loop_body default_config t3 t4
      (loop_body default_config t1 t2
        ((init_state t0)\<lparr>pulse_list := [(100, 60000), (101, 80000), (107, 90000)]\<rparr>))))
     = 1
   \<and> old_epoch (loop_body default_config t5 t6 (loop_body default_config t3 t4
      (loop_body default_config t1 t2
        ((init_state t0)\<lparr>pulse_list := [(100, 60000), (101, 80000), (107, 90000)]\<rparr>))))
     = Some 107
   \<and> pulse_list (loop_body default_config t5 t6 (loop_body default_config t3 t4
      (loop_body default_config t1 t2
        ((init_state t0)\<lparr>pulse_list := [(100, 60000), (101, 80000), (107, 90000)]\<rparr>))))
     = []
   \<and> dt_agg (loop_body default_config t3 t4 (loop_body default_config t1 t2
        ((init_state t0)\<lparr>pulse_list := [(100, 60000), (101, 80000), (107, 90000)]\<rparr>)))
     = 140000
   \<and> pulse_count (loop_body default_config t3 t4 (loop_body default_config t1 t2
        ((init_state t0)\<lparr>pulse_list := [(100, 60000), (101, 80000), (107, 90000)]\<rparr>)))
     = 2
   \<and> emitted (loop_body default_config t3 t4 (loop_body default_config t1 t2
        ((init_state t0)\<lparr>pulse_list := [(100, 60000), (101, 80000), (107, 90000)]\<rparr>)))
     = []"
  by (simp add: loop_body_def Let_def emitted_def flush_buffer_def emit_output_def
      init_state_def default_config_def round_ms_def)

section \<open>Shutdown\<close>



text \<open>
  Claim C2 says that a stop makes the loop process every observation already in
  \<^verbatim>\<open>pulse_list\<close> before the code after the loop runs. The loop is \<^verbatim>\<open>while running\<close>: once the
  handler has cleared \<^verbatim>\<open>running\<close>, the next test leaves the loop whatever \<^verbatim>\<open>pulse_list\<close>
  holds. Here two falling edges enqueue the observation \<open>(100, 60000)\<close>, the signal
  arrives, and the loop ends with the observation still in the queue, counted nowhere
  and in no record.
\<close>

theorem stop_leaves_queue_counterexample:
  "aggregator_loop default_config
      [Edge 0 0 99.5, Edge 0 60000 100.2, Signal, Turn 101 101] (init_state 99)
     = Some ((init_state 99)\<lparr>previous_tick := Some 60000, pulse_list := [(100, 60000)],
              running := False\<rparr>)"
  by (simp add: init_state_def edge_callback_def shutdown_handler_def loop_exit_def
      flush_buffer_def py_int_def)

text \<open>
  Claim C2, amended. After the signal, the next turn of the loop ends it without
  popping anything: \<^verbatim>\<open>pulse_list\<close> is left as it was, and the records emitted are those
  emitted before, followed by the record of the open window if \<open>pulse_count > 0\<close>. What
  is still queued reaches no record.
\<close>

theorem stop_ends_loop_without_draining:
  "aggregator_loop cfg (Signal # Turn t_check t_flush # evs) s
     = Some (loop_exit t_flush (s\<lparr>running := False\<rparr>))
   \<and> pulse_list (loop_exit t_flush (s\<lparr>running := False\<rparr>)) = pulse_list s
   \<and> emitted (loop_exit t_flush (s\<lparr>running := False\<rparr>))
       = emitted s @ (if 0 < pulse_count s
                      then [(AggStart s, round_ms (dt_agg s), pulse_count s)] else [])
   \<and> out_buffer (loop_exit t_flush (s\<lparr>running := False\<rparr>)) = []"
  by (simp add: shutdown_handler_def loop_exit_def emitted_def flush_buffer_def
      emit_output_def)

theorem stop_ends_loop_without_draining_witness:
  "aggregator_loop default_config [Signal, Turn 103 104]
      ((init_state 0)\<lparr>pulse_list := [(102, 80000)], old_epoch := Some 100, AggStart := 100,
         dt_agg := 60000, pulse_count := 1\<rparr>)
     = Some (loop_exit 104
         ((init_state 0)\<lparr>pulse_list := [(102, 80000)], old_epoch := Some 100, AggStart := 100,
            dt_agg := 60000, pulse_count := 1, running := False\<rparr>))
   \<and> pulse_list (loop_exit 104
         ((init_state 0)\<lparr>pulse_list := [(102, 80000)], old_epoch := Some 100, AggStart := 100,
            dt_agg := 60000, pulse_count := 1, running := False\<rparr>)) = [(102, 80000)]
   \<and> emitted (loop_exit 104
         ((init_state 0)\<lparr>pulse_list := [(102, 80000)], old_epoch := Some 100, AggStart := 100,
            dt_agg := 60000, pulse_count := 1, running := False\<rparr>)) = [(100, 60, 1)]"
proof -
  let ?s = "(init_state 0)\<lparr>pulse_list := [(102, 80000)], old_epoch := Some 100,
    AggStart := 100, dt_agg := 60000, pulse_count := 1\<rparr>"
  note h = stop_ends_loop_without_draining [where s = ?s and cfg = default_config
      and t_check = 103 and t_flush = 104 and evs = "[]"]
  from h have a: "aggregator_loop default_config [Signal, Turn 103 104] ?s
      = Some (loop_exit 104 (?s\<lparr>running := False\<rparr>))"
    by blast
  from h have "pulse_list (loop_exit 104 (?s\<lparr>running := False\<rparr>)) = pulse_list ?s"
    by blast
  then have b: "pulse_list (loop_exit 104 (?s\<lparr>running := False\<rparr>)) = [(102, 80000)]"
    by (simp add: init_state_def)
  have old: "emitted ?s = []" "0 < pulse_count ?s" "AggStart ?s = 100"
    "round_ms (dt_agg ?s) = 60" "pulse_count ?s = 1"
    by (simp_all add: init_state_def emitted_def round_ms_def)
  from h have "emitted (loop_exit 104 (?s\<lparr>running := False\<rparr>))
      = emitted ?s @ (if 0 < pulse_count ?s
                      then [(AggStart ?s, round_ms (dt_agg ?s), pulse_count ?s)] else [])"
    by blast
  then have c: "emitted (loop_exit 104 (?s\<lparr>running := False\<rparr>)) = [(100, 60, 1)]"
    by (simp add: old round_ms_def)
  from a b c show ?thesis by blast
qed

section \<open>The empty flush\<close>

text \<open>
  Claim C10. \<^verbatim>\<open>flush_buffer\<close> on an empty \<^verbatim>\<open>out_buffer\<close> returns the state it was given:
  \<^verbatim>\<open>last_flush_time\<close>, \<^verbatim>\<open>block_input_pulses\<close> and \<^verbatim>\<open>block_output_records\<close> keep their values.
  So an idle pass of the loop with nothing buffered leaves the state as it was even when
  the flush interval has elapsed, and \<^verbatim>\<open>last_flush_time\<close> stays the time of the last
  write that was not empty.
\<close>

theorem flush_buffer_empty_noop:
  "out_buffer s = [] \<Longrightarrow>
     flush_buffer now s = s
     \<and> last_flush_time (flush_buffer now s) = last_flush_time s
     \<and> block_input_pulses (flush_buffer now s) = block_input_pulses s
     \<and> block_output_records (flush_buffer now s) = block_output_records s
     \<and> (pulse_list s = [] \<longrightarrow> loop_body cfg t_check t_flush s = s)"
  by (simp add: flush_buffer_def loop_body_def)

theorem flush_buffer_empty_noop_witness:
  "flush_buffer 500 ((init_state 7)\<lparr>block_input_pulses := 3\<rparr>)
     = (init_state 7)\<lparr>block_input_pulses := 3\<rparr>
   \<and> last_flush_time (flush_buffer 500 ((init_state 7)\<lparr>block_input_pulses := 3\<rparr>)) = 7
   \<and> block_input_pulses (flush_buffer 500 ((init_state 7)\<lparr>block_input_pulses := 3\<rparr>)) = 3
   \<and> loop_body default_config 500 501 ((init_state 7)\<lparr>block_input_pulses := 3\<rparr>)
     = (init_state 7)\<lparr>block_input_pulses := 3\<rparr>"
  using flush_buffer_empty_noop [of "(init_state 7)\<lparr>block_input_pulses := 3\<rparr>" 500
      default_config 500 501]
  by (simp add: init_state_def)

section \<open>The flush policy\<close>

text \<open>
  Claim C5 says that the buffer is flushed exactly when the time since the last flush
  has reached the flush interval or the buffer has reached the cap. The loop tests this
  at two places only, line 157 and line 191, and a pass that discards a glitch leaves
  at line 167 before the second. Here, from the initial state at time \<open>0\<close>: two edges
  enqueue \<open>(1, 60000)\<close> and a pass opens the window; two more edges enqueue
  \<open>(59, 60000)\<close> and the glitch \<open>(59, 1000)\<close>; the pass at time \<open>59\<close> closes the window
  and buffers \<open>(1, 60, 1)\<close>, one second before the interval of \<open>60\<close>; the pass at time
  \<open>61\<close> pops the glitch. After it the interval has elapsed, the record is still in the
  buffer and the store is empty.
\<close>

theorem glitch_pass_skips_due_flush_counterexample:
  "loop_body default_config 61 61
     (loop_body default_config 59 59
       (edge_callback 0 121000 59 (edge_callback 0 120000 59
         (loop_body default_config 1 1
           (edge_callback 0 60000 1 (edge_callback 0 0 0 (init_state 0)))))))
     = (init_state 0)\<lparr>previous_tick := Some 121000, out_buffer := [(1, 60, 1)],
          old_epoch := Some 59, AggStart := 59, dt_agg := 60000, pulse_count := 1,
          block_input_pulses := 3, block_output_records := 1\<rparr>
   \<and> db ((init_state 0)\<lparr>previous_tick := Some 121000, out_buffer := [(1, 60, 1)],
          old_epoch := Some 59, AggStart := 59, dt_agg := 60000, pulse_count := 1,
          block_input_pulses := 3, block_output_records := 1\<rparr>) = []
   \<and> real_of_int (DbaseBlkTime default_config)
       \<le> 61 - last_flush_time ((init_state 0)\<lparr>previous_tick := Some 121000,
          out_buffer := [(1, 60, 1)], old_epoch := Some 59, AggStart := 59, dt_agg := 60000,
          pulse_count := 1, block_input_pulses := 3, block_output_records := 1\<rparr>)"
  by (simp add: init_state_def default_config_def edge_callback_def and_ffffffff py_int_def
      loop_body_def Let_def flush_buffer_def emit_output_def round_ms_def)

text \<open>
  Claim C5, amended. Let the cap be at least one and take a state at the head of the
  loop (\<open>buffer_ok\<close>, which holds initially and after every event). The passes that test
  the flush policy are the idle pass (line 157) and the pass that handles a qualifying
  observation with a window open (line 191). In both, \<^verbatim>\<open>flush_buffer\<close> runs exactly when
  the time since \<^verbatim>\<open>last_flush_time\<close> is at least \<^verbatim>\<open>DbaseBlkTime\<close> or the buffer holds at
  least \<^verbatim>\<open>MAX_RECORDS\<close> records: the idle pass tests the time only, and there the buffer
  is below the cap. With \<open>b\<close> the buffer at line 191: \<open>b\<close> is no longer than the cap; if
  the policy holds the buffer is empty after the pass and \<open>b\<close>, when it is not empty,
  is the batch written; if not, nothing is written and \<open>b\<close> stays buffered. So a buffer
  that reaches the cap is written in the same pass whatever the clock reads. The
  remaining passes (a glitch, or the observation that opens the first window) make no
  test and leave buffer and store alone. Every batch in the store of a run that has
  ended is no longer than the cap.
\<close>

theorem flush_policy:
  assumes cap: "1 \<le> MAX_RECORDS cfg" and ok: "buffer_ok cfg s"
  shows "(pulse_list s = [] \<longrightarrow>
            (of_int (DbaseBlkTime cfg) \<le> t_check - last_flush_time s
               \<or> MAX_RECORDS cfg \<le> int (length (out_buffer s))
             \<longrightarrow> loop_body cfg t_check t_flush s = flush_buffer t_flush s)
          \<and> (\<not> (of_int (DbaseBlkTime cfg) \<le> t_check - last_flush_time s
                 \<or> MAX_RECORDS cfg \<le> int (length (out_buffer s)))
             \<longrightarrow> loop_body cfg t_check t_flush s = s))
       \<and> (pulse_list s = (epoch, delta_us) # rest \<and> \<not> delta_us < GLITCH_THRESHOLD_US cfg
            \<and> old_epoch s = Some e0
            \<and> b = (if epoch \<le> AggStart s + MIN_TIME cfg then out_buffer s
                    else out_buffer s @ [(AggStart s, round_ms (dt_agg s), pulse_count s)])
          \<longrightarrow> int (length b) \<le> MAX_RECORDS cfg
            \<and> (of_int (DbaseBlkTime cfg) \<le> t_check - last_flush_time s
                  \<or> MAX_RECORDS cfg \<le> int (length b)
                \<longrightarrow> out_buffer (loop_body cfg t_check t_flush s) = []
                  \<and> (b \<noteq> [] \<longrightarrow> db (loop_body cfg t_check t_flush s) = db s @ [b]
                        \<and> last_flush_time (loop_body cfg t_check t_flush s) = t_flush))
            \<and> (\<not> (of_int (DbaseBlkTime cfg) \<le> t_check - last_flush_time s
                     \<or> MAX_RECORDS cfg \<le> int (length b))
                \<longrightarrow> out_buffer (loop_body cfg t_check t_flush s) = b
                  \<and> db (loop_body cfg t_check t_flush s) = db s
                  \<and> last_flush_time (loop_body cfg t_check t_flush s) = last_flush_time s))
       \<and> (pulse_list s = (epoch, delta_us) # rest
            \<and> (delta_us < GLITCH_THRESHOLD_US cfg \<or> old_epoch s = None)
          \<longrightarrow> out_buffer (loop_body cfg t_check t_flush s) = out_buffer s
            \<and> db (loop_body cfg t_check t_flush s) = db s)
       \<and> buffer_ok cfg (loop_body cfg t_check t_flush s)
       \<and> (aggregator_loop cfg evs (init_state t0) = Some s_end \<longrightarrow>
            list_all (\<lambda>batch. int (length batch) \<le> MAX_RECORDS cfg) (db s_end))"
proof -
  have A: "pulse_list s = [] \<longrightarrow>
            (of_int (DbaseBlkTime cfg) \<le> t_check - last_flush_time s
               \<or> MAX_RECORDS cfg \<le> int (length (out_buffer s))
             \<longrightarrow> loop_body cfg t_check t_flush s = flush_buffer t_flush s)
          \<and> (\<not> (of_int (DbaseBlkTime cfg) \<le> t_check - last_flush_time s
                 \<or> MAX_RECORDS cfg \<le> int (length (out_buffer s)))
             \<longrightarrow> loop_body cfg t_check t_flush s = s)"
    using flush_check_idle [OF ok] by blast
  have len: "int (length (out_buffer s)) < MAX_RECORDS cfg"
    using ok by (simp add: buffer_ok_def)
  have B: "pulse_list s = (epoch, delta_us) # rest \<and> \<not> delta_us < GLITCH_THRESHOLD_US cfg
            \<and> old_epoch s = Some e0
            \<and> b = (if epoch \<le> AggStart s + MIN_TIME cfg then out_buffer s
                    else out_buffer s @ [(AggStart s, round_ms (dt_agg s), pulse_count s)])
          \<longrightarrow> int (length b) \<le> MAX_RECORDS cfg
            \<and> (of_int (DbaseBlkTime cfg) \<le> t_check - last_flush_time s
                  \<or> MAX_RECORDS cfg \<le> int (length b)
                \<longrightarrow> out_buffer (loop_body cfg t_check t_flush s) = []
                  \<and> (b \<noteq> [] \<longrightarrow> db (loop_body cfg t_check t_flush s) = db s @ [b]
                        \<and> last_flush_time (loop_body cfg t_check t_flush s) = t_flush))
            \<and> (\<not> (of_int (DbaseBlkTime cfg) \<le> t_check - last_flush_time s
                     \<or> MAX_RECORDS cfg \<le> int (length b))
                \<longrightarrow> out_buffer (loop_body cfg t_check t_flush s) = b
                  \<and> db (loop_body cfg t_check t_flush s) = db s
                  \<and> last_flush_time (loop_body cfg t_check t_flush s) = last_flush_time s)"
  proof (intro impI, elim conjE)
    assume h: "pulse_list s = (epoch, delta_us) # rest" "\<not> delta_us < GLITCH_THRESHOLD_US cfg"
      "old_epoch s = Some e0"
      "b = (if epoch \<le> AggStart s + MIN_TIME cfg then out_buffer s
            else out_buffer s @ [(AggStart s, round_ms (dt_agg s), pulse_count s)])"
    have "int (length b) \<le> MAX_RECORDS cfg" using len h(4) by simp
    then show "int (length b) \<le> MAX_RECORDS cfg
            \<and> (of_int (DbaseBlkTime cfg) \<le> t_check - last_flush_time s
                  \<or> MAX_RECORDS cfg \<le> int (length b)
                \<longrightarrow> out_buffer (loop_body cfg t_check t_flush s) = []
                  \<and> (b \<noteq> [] \<longrightarrow> db (loop_body cfg t_check t_flush s) = db s @ [b]
                        \<and> last_flush_time (loop_body cfg t_check t_flush s) = t_flush))
            \<and> (\<not> (of_int (DbaseBlkTime cfg) \<le> t_check - last_flush_time s
                     \<or> MAX_RECORDS cfg \<le> int (length b))
                \<longrightarrow> out_buffer (loop_body cfg t_check t_flush s) = b
                  \<and> db (loop_body cfg t_check t_flush s) = db s
                  \<and> last_flush_time (loop_body cfg t_check t_flush s) = last_flush_time s)"
      using flush_check_pulse [OF h] by blast
  qed
  have C: "buffer_ok cfg (loop_body cfg t_check t_flush s)"
    using cap ok by (rule buffer_ok_body)
  have D: "aggregator_loop cfg evs (init_state t0) = Some s_end \<longrightarrow>
            list_all (\<lambda>batch. int (length batch) \<le> MAX_RECORDS cfg) (db s_end)"
    using buffer_ok_run [OF cap buffer_ok_init [OF cap]] by (auto simp: buffer_ok_def)
  have E: "pulse_list s = (epoch, delta_us) # rest
            \<and> (delta_us < GLITCH_THRESHOLD_US cfg \<or> old_epoch s = None)
          \<longrightarrow> out_buffer (loop_body cfg t_check t_flush s) = out_buffer s
            \<and> db (loop_body cfg t_check t_flush s) = db s"
    by (auto simp: loop_body_def Let_def)
  from A B C D E show ?thesis by blast
qed

theorem flush_policy_witness:
  "1 \<le> MAX_RECORDS (default_config\<lparr>MAX_RECORDS := 5\<rparr>)
   \<and> buffer_ok (default_config\<lparr>MAX_RECORDS := 5\<rparr>)
        ((init_state 0)\<lparr>pulse_list := [(200, 60000)],
           out_buffer := [(10, 60, 1), (20, 60, 1), (30, 60, 1), (40, 60, 1)],
           old_epoch := Some 100, AggStart := 100, dt_agg := 140000, pulse_count := 2\<rparr>)
   \<and> out_buffer (loop_body (default_config\<lparr>MAX_RECORDS := 5\<rparr>) 1 1
        ((init_state 0)\<lparr>pulse_list := [(200, 60000)],
           out_buffer := [(10, 60, 1), (20, 60, 1), (30, 60, 1), (40, 60, 1)],
           old_epoch := Some 100, AggStart := 100, dt_agg := 140000, pulse_count := 2\<rparr>)) = []
   \<and> db (loop_body (default_config\<lparr>MAX_RECORDS := 5\<rparr>) 1 1
        ((init_state 0)\<lparr>pulse_list := [(200, 60000)],
           out_buffer := [(10, 60, 1), (20, 60, 1), (30, 60, 1), (40, 60, 1)],
           old_epoch := Some 100, AggStart := 100, dt_agg := 140000, pulse_count := 2\<rparr>))
       = [[(10, 60, 1), (20, 60, 1), (30, 60, 1), (40, 60, 1), (100, 140, 2)]]"
proof -
  have cap: "1 \<le> MAX_RECORDS (default_config\<lparr>MAX_RECORDS := 5\<rparr>)"
    by (simp add: default_config_def)
  have ok: "buffer_ok (default_config\<lparr>MAX_RECORDS := 5\<rparr>)
        ((init_state 0)\<lparr>pulse_list := [(200, 60000)],
           out_buffer := [(10, 60, 1), (20, 60, 1), (30, 60, 1), (40, 60, 1)],
           old_epoch := Some 100, AggStart := 100, dt_agg := 140000, pulse_count := 2\<rparr>)"
    by (simp add: buffer_ok_def init_state_def default_config_def)
  show ?thesis
    using cap ok
      flush_policy [OF cap ok, where epoch = 200 and delta_us = 60000 and rest = "[]"
        and ?e0.0 = 100
        and b = "[(10, 60, 1), (20, 60, 1), (30, 60, 1), (40, 60, 1), (100, 140, 2)]"
        and t_check = 1 and t_flush = 1 and evs = "[]" and ?t0.0 = 0]
    by (simp add: init_state_def default_config_def round_ms_def)
qed

section \<open>Elapsed milliseconds are positive\<close>

text \<open>
  Claim C8. Let the glitch threshold be above \<open>500\<close> microseconds, as the configured
  \<open>50000\<close> is. Every interval that passes the glitch filter then rounds to at least one
  millisecond, so a window never consists of intervals that all round to zero; and in
  every run of the collector from its initial state, under any edges, signals and
  clock readings, each record emitted has \<open>count > 0\<close> and \<open>dt_ms > 0\<close>.
\<close>

theorem emitted_records_positive:
  assumes "500 < GLITCH_THRESHOLD_US cfg"
    and "aggregator_loop cfg evs (init_state t0) = Some s'"
  shows "(\<forall>(epoch_s, dt_ms, count) \<in> set (emitted s'). 0 < count \<and> 0 < dt_ms)
       \<and> (\<forall>delta_us. \<not> delta_us < GLITCH_THRESHOLD_US cfg \<longrightarrow> 0 < round_ms delta_us)"
proof -
  have "rows_positive (emitted s')"
    using engine_ok_run [OF assms(1) engine_ok_init assms(2)] .
  moreover have "\<And>d. \<not> d < GLITCH_THRESHOLD_US cfg \<Longrightarrow> 0 < round_ms d"
    using assms(1) by (intro round_ms_pos) simp
  ultimately show ?thesis by (simp add: rows_positive_def list_all_iff)
qed

theorem emitted_records_positive_witness:
  "500 < GLITCH_THRESHOLD_US default_config
   \<and> aggregator_loop default_config
        [Edge 0 0 99, Edge 0 60000 100, Edge 0 140000 101, Edge 0 230000 107,
         Turn 107 107, Turn 107 107, Turn 107 107, Signal, Turn 108 108] (init_state 99)
       = Some ((init_state 99)\<lparr>previous_tick := Some 230000, running := False,
                last_flush_time := 108, old_epoch := Some 107, AggStart := 107,
                dt_agg := 90000, pulse_count := 1,
                db := [[(100, 140, 2), (107, 90, 1)]]\<rparr>)
   \<and> list_all (\<lambda>(epoch_s, dt_ms, count). 0 < count \<and> 0 < dt_ms)
        (emitted
          ((init_state 99)\<lparr>previous_tick := Some 230000, running := False,
             last_flush_time := 108, old_epoch := Some 107, AggStart := 107,
             dt_agg := 90000, pulse_count := 1,
             db := [[(100, 140, 2), (107, 90, 1)]]\<rparr>))"
proof -
  have thr: "500 < GLITCH_THRESHOLD_US default_config"
    by (simp add: default_config_def)
  have run: "aggregator_loop default_config
        [Edge 0 0 99, Edge 0 60000 100, Edge 0 140000 101, Edge 0 230000 107,
         Turn 107 107, Turn 107 107, Turn 107 107, Signal, Turn 108 108] (init_state 99)
       = Some ((init_state 99)\<lparr>previous_tick := Some 230000, running := False,
                last_flush_time := 108, old_epoch := Some 107, AggStart := 107,
                dt_agg := 90000, pulse_count := 1,
                db := [[(100, 140, 2), (107, 90, 1)]]\<rparr>)"
    by (simp add: init_state_def default_config_def edge_callback_def and_ffffffff
        py_int_def shutdown_handler_def loop_body_def Let_def loop_exit_def
        flush_buffer_def emit_output_def round_ms_def)
  show ?thesis
    using thr run emitted_records_positive [OF thr run] by (simp only: list_all_iff) blast
qed

end
